theory Spec2Isabelle
  imports Complex_Main "HOL-Library.AList"
begin

section \<open>The backtesting engine (backtester.py)\<close>

text \<open>
  Numbers are Python numbers read exactly: cash, prices and quantities are rationals
  (Python's unbounded ints are the integers among them), so the arithmetic below has no
  rounding. Python dictionaries are association lists in insertion order, read with
  \<open>map_of\<close> and written with \<open>AList.update\<close> (an existing key keeps its place, a new key
  goes to the end), which is the order \<open>dict.items()\<close> iterates in. The calls to the
  logger and to \<open>print\<close> change no state of the engine; only the report's printed lines
  are kept, as values.
\<close>

subsection \<open>Data\<close>

text \<open>A value of the configuration mapping: a number or a string.\<close>

datatype py_value = PyNum rat | PyStr string

datatype py_error = AttributeError string | ZeroDivisionError

text \<open>An entry of \<open>self.positions\<close>: the dictionary \<open>{'quantity': q}\<close>.\<close>

record position =
  quantity :: rat

text \<open>An entry of \<open>self.history\<close>: \<open>{'timestamp': index, 'portfolio_value': value}\<close>.\<close>

record 't history_entry =
  timestamp :: 't
  entry_portfolio_value :: rat

text \<open>
  The fields of a \<open>Backtester\<close> object. \<open>data\<close> is the data frame: its rows in order,
  each the index (the timestamp) and the \<open>price\<close> column.
\<close>

record 't backtester =
  data :: "('t \<times> rat) list"
  initial_capital :: rat
  cash :: rat
  positions :: "(string \<times> position) list"
  portfolio_value :: rat
  history :: "'t history_entry list"

text \<open>\<open>Backtester.__init__(strategy_class, data, initial_capital)\<close>.\<close>

definition Backtester_init :: "('t \<times> rat) list \<Rightarrow> rat \<Rightarrow> 't backtester" where
  "Backtester_init rows capital =
     \<lparr>data = rows, initial_capital = capital, cash = capital, positions = [],
      portfolio_value = capital, history = []\<rparr>"

subsection \<open>The simulated broker\<close>

text \<open>
  The loop of \<open>_update_portfolio_value\<close>: the running value \<open>pv\<close> takes
  \<open>position['quantity'] * current_price\<close> for each item of \<open>self.positions\<close> in turn.
\<close>

fun mark_positions :: "rat \<Rightarrow> (string \<times> position) list \<Rightarrow> rat \<Rightarrow> rat" where
  "mark_positions pv [] current_price = pv"
| "mark_positions pv ((symbol, pos) # rest) current_price =
     mark_positions (pv + quantity pos * current_price) rest current_price"

definition update_portfolio_value :: "'t backtester \<Rightarrow> rat \<Rightarrow> 't backtester" where
  "update_portfolio_value self current_price =
     self\<lparr>portfolio_value := mark_positions (cash self) (positions self) current_price\<rparr>"

text \<open>
  \<open>place_order(symbol, quantity, price, transaction_type, order_type)\<close>: the new state and
  the returned order id. A transaction type that is neither \<open>'SELL'\<close> nor \<open>'BUY'\<close> falls
  through both branches.
\<close>

definition place_order ::
  "'t backtester \<Rightarrow> string \<Rightarrow> rat \<Rightarrow> rat \<Rightarrow> py_value \<Rightarrow> py_value \<Rightarrow> int \<times> 't backtester" where
  "place_order self symbol qty price transaction_type order_type =
     (if transaction_type = PyStr ''SELL'' then
        (1, self\<lparr>cash := cash self + qty * price,
                 positions :=
                   (case map_of (positions self) symbol of
                      Some pos \<Rightarrow>
                        AList.update symbol (pos\<lparr>quantity := quantity pos - qty\<rparr>) (positions self)
                    | None \<Rightarrow> AList.update symbol \<lparr>quantity = - qty\<rparr> (positions self))\<rparr>)
      else if transaction_type = PyStr ''BUY'' then
        (1, self\<lparr>cash := cash self - qty * price,
                 positions :=
                   (case map_of (positions self) symbol of
                      Some pos \<Rightarrow>
                        AList.update symbol (pos\<lparr>quantity := quantity pos + qty\<rparr>) (positions self)
                    | None \<Rightarrow> AList.update symbol \<lparr>quantity = qty\<rparr> (positions self))\<rparr>)
      else (1, self))"

text \<open>\<open>get_quote(symbol)\<close>: the dictionary \<open>{symbol: {'last_price': 20}}\<close>.\<close>

definition get_quote :: "'t backtester \<Rightarrow> string \<Rightarrow> (string \<times> (string \<times> rat) list) list" where
  "get_quote self symbol = [(symbol, [(''last_price'', 20)])]"

text \<open>
  A caller's sequence of \<open>place_order\<close> calls, each given as
  (symbol, quantity, price, transaction type, order type): the order ids returned, in
  call order, every call acting on the state its predecessor left.
\<close>

fun order_ids ::
  "'t backtester \<Rightarrow> (string \<times> rat \<times> rat \<times> py_value \<times> py_value) list \<Rightarrow> int list" where
  "order_ids self [] = []"
| "order_ids self ((symbol, qty, price, transaction_type, order_type) # calls) =
     (case place_order self symbol qty price transaction_type order_type of
        (order_id, self') \<Rightarrow> order_id # order_ids self' calls)"

subsection \<open>Reporting\<close>



section \<open>The backtest strategy (strategy/survivor_backtest.py)\<close>

subsection \<open>Construction\<close>

text \<open>
  The attributes of a \<open>SurvivorBacktestStrategy\<close> object. \<open>strat_var\<close> holds the attributes
  \<open>strat_var_<k>\<close> that \<open>__init__\<close> sets from the configuration, keyed by \<open>k\<close>. The broker
  and the order manager are the backtester itself, which the functions below take and
  return.
\<close>

record strategy =
  strat_var :: "(string \<times> py_value) list"
  symbol_initials :: py_value
  instruments :: "string list option"
  strike_difference :: int
  pe_reset_gap_flag :: int
  ce_reset_gap_flag :: int
  nifty_pe_last_value :: rat
  nifty_ce_last_value :: rat

text \<open>\<open>Backtester._get_default_config\<close>.\<close>

definition get_default_config :: "(string \<times> py_value) list" where
  "get_default_config =
     [(''symbol_initials'', PyStr ''NIFTY25JAN30''),
      (''index_symbol'', PyStr ''NSE:NIFTY 50''),
      (''pe_gap'', PyNum 25),
      (''ce_gap'', PyNum 25),
      (''pe_symbol_gap'', PyNum 200),
      (''ce_symbol_gap'', PyNum 200),
      (''pe_reset_gap'', PyNum 50),
      (''ce_reset_gap'', PyNum 50),
      (''pe_quantity'', PyNum 50),
      (''ce_quantity'', PyNum 50),
      (''min_price_to_sell'', PyNum 15),
      (''sell_multiplier_threshold'', PyNum 3),
      (''exchange'', PyStr ''NFO''),
      (''order_type'', PyStr ''MARKET''),
      (''product_type'', PyStr ''NRML''),
      (''trans_type'', PyStr ''SELL''),
      (''pe_start_point'', PyNum 0),
      (''ce_start_point'', PyNum 0)]"

text \<open>The loop \<open>for k, v in config.items(): setattr(self, f'strat_var_{k}', v)\<close>.\<close>

definition set_strat_vars :: "(string \<times> py_value) list \<Rightarrow> (string \<times> py_value) list" where
  "set_strat_vars config = fold (\<lambda>(k, v) attrs. AList.update k v attrs) config []"

text \<open>\<open>_initialize_state\<close>: the flags and the starting reference price.\<close>

definition initialize_state :: "strategy \<Rightarrow> strategy" where
  "initialize_state self =
     self\<lparr>pe_reset_gap_flag := 0, ce_reset_gap_flag := 0,
          nifty_pe_last_value := 24500, nifty_ce_last_value := 24500\<rparr>"

text \<open>
  \<open>SurvivorBacktestStrategy.__init__(broker, config, order_manager)\<close>. Reading
  \<open>self.strat_var_symbol_initials\<close> raises \<open>AttributeError\<close> when the configuration had no
  such key; no other attribute is read here. The fields that \<open>_initialize_state\<close> sets
  only afterwards start at the values it gives them.
\<close>

definition SurvivorBacktestStrategy_init :: "(string \<times> py_value) list \<Rightarrow> py_error + strategy" where
  "SurvivorBacktestStrategy_init config =
     (let attrs = set_strat_vars config in
      case map_of attrs ''symbol_initials'' of
        None \<Rightarrow> Inl (AttributeError ''strat_var_symbol_initials'')
      | Some v \<Rightarrow>
          Inr (initialize_state
                 \<lparr>strat_var = attrs, symbol_initials = v, instruments = None,
                  strike_difference = 50, pe_reset_gap_flag = 0, ce_reset_gap_flag = 0,
                  nifty_pe_last_value = 24500, nifty_ce_last_value = 24500\<rparr>))"

subsection \<open>Symbol selection\<close>

text \<open>
  Python's \<open>str\<close> of an int, which the f-string of \<open>_find_nifty_symbol_from_gap\<close> applies to
  the strike: decimal digits, with a minus sign for a negative number. Strikes are
  Python ints here.
\<close>

fun digits :: "nat \<Rightarrow> string" where
  "digits n =
     (if n < 10 then [''0123456789'' ! n]
      else digits (n div 10) @ [''0123456789'' ! (n mod 10)])"

declare digits.simps [simp del]

definition py_str :: "int \<Rightarrow> string" where
  "py_str i = (if i < 0 then CHR ''-'' # digits (nat (- i)) else digits (nat i))"

text \<open>The returned dictionary \<open>{'tradingsymbol': ..., 'strike': ...}\<close>.\<close>

record instrument =
  tradingsymbol :: string
  strike :: int

definition find_nifty_symbol_from_gap :: "string \<Rightarrow> int \<Rightarrow> int \<Rightarrow> instrument" where
  "find_nifty_symbol_from_gap option_type ltp gap =
     (let target_strike = ltp + (if option_type = ''CE'' then gap else - gap) in
      \<lparr>tradingsymbol = ''NIFTY'' @ option_type @ py_str target_strike,
       strike = target_strike\<rparr>)"

subsection \<open>Orders and the run\<close>

text \<open>
  \<open>_place_order(symbol, quantity)\<close>: the broker's \<open>place_order\<close> at the fixed price 20, with
  the transaction and order types read from the strategy's attributes (\<open>AttributeError\<close>
  when the configuration never set them). The returned order id is dropped.
\<close>

definition strategy_place_order ::
  "strategy \<Rightarrow> 't backtester \<Rightarrow> string \<Rightarrow> rat \<Rightarrow> py_error + 't backtester" where
  "strategy_place_order self broker symbol qty =
     (case map_of (strat_var self) ''trans_type'' of
        None \<Rightarrow> Inl (AttributeError ''strat_var_trans_type'')
      | Some trans_type \<Rightarrow>
          (case map_of (strat_var self) ''order_type'' of
             None \<Rightarrow> Inl (AttributeError ''strat_var_order_type'')
           | Some order_type \<Rightarrow>
               Inr (snd (place_order broker symbol qty 20 trans_type order_type))))"

text \<open>
  \<open>on_ticks_update\<close> is inherited from \<open>SurvivorStrategy\<close> (strategy/survivor.py), which is
  not among the files at hand. It is a parameter \<open>react\<close> of the run: given the strategy
  object and the tick's \<open>last_price\<close>, the orders (symbol, quantity) that the strategy
  places through \<open>_place_order\<close> on that tick, in order, and the strategy object as the
  tick leaves it.
\<close>

fun place_orders ::
  "strategy \<Rightarrow> 't backtester \<Rightarrow> (string \<times> rat) list \<Rightarrow> py_error + 't backtester" where
  "place_orders self broker [] = Inr broker"
| "place_orders self broker ((symbol, qty) # rest) =
     (case strategy_place_order self broker symbol qty of
        Inl e \<Rightarrow> Inl e
      | Inr broker' \<Rightarrow> place_orders self broker' rest)"

text \<open>
  The loop of \<open>Backtester.run\<close> over the rows of the data: the strategy reacts, the
  portfolio is marked at the row's price, and the entry is appended to the history. An
  exception leaves the loop.
\<close>

fun run_loop ::
  "(strategy \<Rightarrow> rat \<Rightarrow> (string \<times> rat) list \<times> strategy) \<Rightarrow> strategy \<Rightarrow> 't backtester \<Rightarrow>
   ('t \<times> rat) list \<Rightarrow> py_error + 't backtester" where
  "run_loop react strat self [] = Inr self"
| "run_loop react strat self ((index, price) # rows) =
     (case react strat price of
        (orders, strat') \<Rightarrow>
          (case place_orders strat self orders of
             Inl e \<Rightarrow> Inl e
           | Inr self1 \<Rightarrow>
               (let self2 = update_portfolio_value self1 price;
                    self3 = self2\<lparr>history := history self2 @
                              [\<lparr>timestamp = index,
                                entry_portfolio_value = portfolio_value self2\<rparr>]\<rparr>
                in run_loop react strat' self3 rows)))"

text \<open>\<open>Backtester.run\<close>: the strategy is built from the default configuration.\<close>

definition run ::
  "(strategy \<Rightarrow> rat \<Rightarrow> (string \<times> rat) list \<times> strategy) \<Rightarrow> 't backtester \<Rightarrow>
   py_error + 't backtester" where
  "run react self =
     (case SurvivorBacktestStrategy_init get_default_config of
        Inl e \<Rightarrow> Inl e
      | Inr strat \<Rightarrow> run_loop react strat self (data self))"

section \<open>Mark-to-market\<close>

lemma mark_positions_sum:
  "mark_positions pv ps p = pv + (\<Sum>(symbol, pos)\<leftarrow>ps. quantity pos * p)"
  by (induction pv ps p rule: mark_positions.induct) simp_all

lemma sum_quantity_price:
  "(\<Sum>(symbol, pos)\<leftarrow>ps. quantity pos * p) = p * (\<Sum>(symbol, pos)\<leftarrow>ps. quantity pos)"
  by (induction ps) (auto simp: algebra_simps)

lemma mark_positions_rename:
  "mark_positions pv (map (\<lambda>(s, pos). (f s, pos)) ps) p = mark_positions pv ps p"
  by (induction pv ps p rule: mark_positions.induct) simp_all


text \<open>
  C10. \<open>_update_portfolio_value(p)\<close> changes the field \<open>portfolio_value\<close> only, to the cash
  plus \<open>p\<close> times the sum of all position quantities: cash and positions stay as they
  were, and the symbols play no part (renaming them leaves the value as it is), so no
  per-symbol quote such as the fixed 20 of \<open>get_quote\<close> enters.
\<close>

theorem update_portfolio_value_underlying:
  "update_portfolio_value self p =
     self\<lparr>portfolio_value := cash self + p * (\<Sum>(symbol, pos)\<leftarrow>positions self. quantity pos)\<rparr>
   \<and> cash (update_portfolio_value self p) = cash self
   \<and> positions (update_portfolio_value self p) = positions self
   \<and> portfolio_value (update_portfolio_value
        (self\<lparr>positions := map (\<lambda>(s, pos). (rename s, pos)) (positions self)\<rparr>) p) =
      portfolio_value (update_portfolio_value self p)"
proof -
  have "portfolio_value (update_portfolio_value
        (self\<lparr>positions := map (\<lambda>(s, pos). (rename s, pos)) (positions self)\<rparr>) p) =
      portfolio_value (update_portfolio_value self p)"
    by (simp add: update_portfolio_value_def mark_positions_rename)
  then show ?thesis
    by (simp add: update_portfolio_value_def mark_positions_sum sum_quantity_price)
qed

section \<open>Order execution\<close>

lemma update_absent: "map_of al k = None \<Longrightarrow> AList.update k v al = al @ [(k, v)]"
  by (induction al) (auto split: if_splits)

lemma update_appended:
  "map_of al k = None \<Longrightarrow> AList.update k v (al @ [(k, v')]) = al @ [(k, v)]"
  by (induction al) (auto split: if_splits)

text \<open>
  C3. A SELL of \<open>q\<close> at \<open>p\<close> followed by a BUY of \<open>q\<close> at \<open>p\<close> on the same symbol gives
  back the cash, and the quantity held in the symbol: where the symbol had a position,
  the whole position book is as before; where it had none (nothing held), the book is
  as before with an entry of quantity 0 for the symbol at its end.
\<close>

theorem sell_then_buy_round_trip:
  "cash (snd (place_order (snd (place_order self symbol q p (PyStr ''SELL'') ot)) symbol q p
       (PyStr ''BUY'') ot')) = cash self
   \<and> (case map_of (positions self) symbol of
        Some pos \<Rightarrow>
          positions (snd (place_order (snd (place_order self symbol q p (PyStr ''SELL'') ot))
            symbol q p (PyStr ''BUY'') ot')) = positions self
      | None \<Rightarrow>
          positions (snd (place_order (snd (place_order self symbol q p (PyStr ''SELL'') ot))
            symbol q p (PyStr ''BUY'') ot')) = positions self @ [(symbol, \<lparr>quantity = 0\<rparr>)])"
  by (auto simp: place_order_def AList.update_conv' AList.update_triv update_absent
           update_appended split: option.splits)

text \<open>
  C4, as the code has it. \<open>place_order\<close> checks nothing: for every quantity and price,
  positive or not, it returns the order id 1 and applies the same arithmetic. A SELL
  adds quantity times price to the cash and takes the quantity off the symbol's position,
  a BUY does the reverse, any other transaction type changes neither; the other
  symbols' positions stay.
\<close>

theorem place_order_no_validation:
  "fst (place_order self symbol q p tt ot) = 1
   \<and> cash (snd (place_order self symbol q p tt ot)) =
       cash self + (if tt = PyStr ''SELL'' then q * p else if tt = PyStr ''BUY'' then - (q * p) else 0)
   \<and> map_of (positions (snd (place_order self symbol q p tt ot))) =
       (if tt = PyStr ''SELL'' \<or> tt = PyStr ''BUY'' then
          (map_of (positions self))(symbol \<mapsto>
             \<lparr>quantity = (case map_of (positions self) symbol of Some pos \<Rightarrow> quantity pos | None \<Rightarrow> 0)
                          + (if tt = PyStr ''SELL'' then - q else q)\<rparr>)
        else map_of (positions self))"
  by (auto simp: place_order_def AList.update_conv' split: option.splits)

text \<open>
  C4 as stated fails: a SELL of the non-positive quantity -50 at price 20 on a fresh
  backtester with capital 100000 is executed. It returns the order id 1, the cash
  becomes 99000 and the symbol gets a position of 50, where the claim has the order
  dropped and cash and positions unchanged.
\<close>

theorem place_order_malformed_counterexample:
  "fst (place_order (Backtester_init ([] :: (nat \<times> rat) list) 100000) ''NIFTYCE24700'' (- 50) 20
        (PyStr ''SELL'') (PyStr ''MARKET'')) = 1
   \<and> cash (snd (place_order (Backtester_init ([] :: (nat \<times> rat) list) 100000) ''NIFTYCE24700'' (- 50) 20
        (PyStr ''SELL'') (PyStr ''MARKET''))) = 99000
   \<and> cash (snd (place_order (Backtester_init ([] :: (nat \<times> rat) list) 100000) ''NIFTYCE24700'' (- 50) 20
        (PyStr ''SELL'') (PyStr ''MARKET''))) \<noteq>
      cash (Backtester_init ([] :: (nat \<times> rat) list) 100000)
   \<and> positions (snd (place_order (Backtester_init ([] :: (nat \<times> rat) list) 100000) ''NIFTYCE24700'' (- 50) 20
        (PyStr ''SELL'') (PyStr ''MARKET''))) = [(''NIFTYCE24700'', \<lparr>quantity = 50\<rparr>)]
   \<and> positions (snd (place_order (Backtester_init ([] :: (nat \<times> rat) list) 100000) ''NIFTYCE24700'' (- 50) 20
        (PyStr ''SELL'') (PyStr ''MARKET''))) \<noteq>
      positions (Backtester_init ([] :: (nat \<times> rat) list) 100000)"
  by (simp add: place_order_def Backtester_init_def)

text \<open>
  C9, as the code has it. Every call of \<open>place_order\<close> returns the same dummy order
  id 1: the ids of any sequence of calls are all 1, so they never decrease and never
  increase.
\<close>

theorem order_ids_constant:
  "order_ids self calls = replicate (length calls) 1 \<and> sorted (order_ids self calls)"
proof -
  have "order_ids self calls = replicate (length calls) 1"
    by (induction self calls rule: order_ids.induct) (auto simp: place_order_def)
  then show ?thesis by simp
qed

text \<open>
  C9 as stated fails: two successive orders on a fresh backtester both get the id 1,
  so the second id is not greater than the first.
\<close>

theorem order_ids_not_increasing_counterexample:
  "order_ids (Backtester_init ([] :: (nat \<times> rat) list) 100000)
     [(''NIFTYCE24700'', 50, 20, PyStr ''SELL'', PyStr ''MARKET''),
      (''NIFTYPE24300'', 50, 20, PyStr ''SELL'', PyStr ''MARKET'')] = [1, 1]
   \<and> \<not> sorted_wrt (<) (order_ids (Backtester_init ([] :: (nat \<times> rat) list) 100000)
     [(''NIFTYCE24700'', 50, 20, PyStr ''SELL'', PyStr ''MARKET''),
      (''NIFTYPE24300'', 50, 20, PyStr ''SELL'', PyStr ''MARKET'')])"
  by (simp add: place_order_def)

section \<open>Strategy construction\<close>

lemma keys_fold_update:
  "fst ` set (fold (\<lambda>(k, v) attrs. AList.update k v attrs) config acc) =
     fst ` set config \<union> fst ` set acc"
proof (induction config arbitrary: acc)
  case Nil
  then show ?case by simp
next
  case (Cons kv config)
  obtain k v where kv: "kv = (k, v)" by (cases kv)
  have "fst ` set (fold (\<lambda>(k, v) attrs. AList.update k v attrs) (kv # config) acc) =
          fst ` set config \<union> fst ` set (AList.update k v acc)"
    using Cons.IH [of "AList.update k v acc"] by (simp add: kv)
  also have "\<dots> = fst ` set config \<union> ({k} \<union> fst ` set acc)"
    by (simp only: AList.dom_update)
  finally show ?case by (auto simp: kv)
qed

lemma keys_set_strat_vars: "fst ` set (set_strat_vars config) = fst ` set config"
  by (simp add: set_strat_vars_def keys_fold_update)

lemma map_of_set_strat_vars_None:
  "map_of (set_strat_vars config) k = None \<longleftrightarrow> k \<notin> fst ` set config"
  by (simp add: map_of_eq_None_iff keys_set_strat_vars)

lemma strat_var_init:
  "SurvivorBacktestStrategy_init config = Inr s \<Longrightarrow> strat_var s = set_strat_vars config"
  by (auto simp: SurvivorBacktestStrategy_init_def initialize_state_def Let_def
           split: option.splits)

lemma init_Inr_iff:
  "(\<exists>s. SurvivorBacktestStrategy_init config = Inr s) \<longleftrightarrow> ''symbol_initials'' \<in> fst ` set config"
  using map_of_set_strat_vars_None [of config "''symbol_initials''"]
  by (auto simp: SurvivorBacktestStrategy_init_def Let_def split: option.splits)

text \<open>
  C8, as the code has it. \<open>__init__\<close> reads one configured attribute only,
  \<open>strat_var_symbol_initials\<close>. A configuration without the key \<open>symbol_initials\<close> raises
  \<open>AttributeError\<close> at construction. A configuration with it constructs the strategy,
  whatever other keys are absent, with exactly the configured keys as attributes; an
  absent \<open>trans_type\<close> then raises only when \<open>_place_order\<close> is called.
\<close>

theorem strategy_init_missing_key:
  "(''symbol_initials'' \<notin> fst ` set config \<longrightarrow>
      SurvivorBacktestStrategy_init config = Inl (AttributeError ''strat_var_symbol_initials''))
   \<and> (''symbol_initials'' \<in> fst ` set config \<longrightarrow>
        (\<exists>s. SurvivorBacktestStrategy_init config = Inr s
           \<and> fst ` set (strat_var s) = fst ` set config
           \<and> (''trans_type'' \<notin> fst ` set config \<longrightarrow>
                strategy_place_order s broker symbol qty =
                  Inl (AttributeError ''strat_var_trans_type''))))"
proof (intro conjI impI)
  assume "''symbol_initials'' \<notin> fst ` set config"
  then have "map_of (set_strat_vars config) ''symbol_initials'' = None"
    by (simp add: map_of_set_strat_vars_None)
  then show "SurvivorBacktestStrategy_init config = Inl (AttributeError ''strat_var_symbol_initials'')"
    by (simp add: SurvivorBacktestStrategy_init_def)
next
  assume "''symbol_initials'' \<in> fst ` set config"
  then obtain s where s: "SurvivorBacktestStrategy_init config = Inr s"
    using init_Inr_iff by blast
  have sv: "strat_var s = set_strat_vars config" by (rule strat_var_init [OF s])
  have "''trans_type'' \<notin> fst ` set config \<longrightarrow>
          strategy_place_order s broker symbol qty = Inl (AttributeError ''strat_var_trans_type'')"
    by (simp add: strategy_place_order_def sv map_of_set_strat_vars_None [symmetric])
  with s sv show "\<exists>s. SurvivorBacktestStrategy_init config = Inr s
           \<and> fst ` set (strat_var s) = fst ` set config
           \<and> (''trans_type'' \<notin> fst ` set config \<longrightarrow>
                strategy_place_order s broker symbol qty =
                  Inl (AttributeError ''strat_var_trans_type''))"
    by (simp add: keys_set_strat_vars)
qed

text \<open>
  The theorem at the empty configuration, and at a configuration holding nothing but
  \<open>symbol_initials\<close>: the first raises at construction, the second constructs and raises
  at the first order.
\<close>

theorem strategy_init_missing_key_witness:
  "SurvivorBacktestStrategy_init [] = Inl (AttributeError ''strat_var_symbol_initials'')
   \<and> (\<exists>s. SurvivorBacktestStrategy_init [(''symbol_initials'', PyStr ''NIFTY25JAN30'')] = Inr s
         \<and> fst ` set (strat_var s) = {''symbol_initials''}
         \<and> strategy_place_order s (Backtester_init ([] :: (nat \<times> rat) list) 100000)
              ''NIFTYCE24700'' 50 = Inl (AttributeError ''strat_var_trans_type''))"
  using strategy_init_missing_key [of "[]"]
    strategy_init_missing_key [of "[(''symbol_initials'', PyStr ''NIFTY25JAN30'')]"
      "Backtester_init ([] :: (nat \<times> rat) list) 100000" "''NIFTYCE24700''" 50]
  by simp

text \<open>
  C8 as stated fails: the default configuration without its gap threshold \<open>pe_gap\<close> is
  a configuration missing a required key, and constructing the strategy from it raises
  nothing.
\<close>

theorem strategy_init_missing_gap_counterexample:
  "\<not> isl (SurvivorBacktestStrategy_init (AList.delete ''pe_gap'' get_default_config))
   \<and> map_of (AList.delete ''pe_gap'' get_default_config) ''pe_gap'' = None"
  by (simp add: SurvivorBacktestStrategy_init_def set_strat_vars_def get_default_config_def
        Let_def)

section \<open>Strike selection\<close>

text \<open>
  C7. For the option types \<open>'CE'\<close> and \<open>'PE'\<close> the strike is \<open>ltp + gap\<close> for a call and
  \<open>ltp - gap\<close> for a put; the trading symbol is \<open>NIFTY\<close>, the option type and the strike
  in decimal, so that the instrument is a function of the option type and the strike
  alone: calls that agree on both return the same instrument. At \<open>ltp = 24500\<close> and
  \<open>gap = 200\<close> the strikes are 24700 and 24300.
\<close>

theorem find_nifty_symbol_from_gap_strike:
  "option_type = ''CE'' \<or> option_type = ''PE'' \<Longrightarrow>
     strike (find_nifty_symbol_from_gap option_type ltp gap) =
       (if option_type = ''CE'' then ltp + gap else ltp - gap)
     \<and> tradingsymbol (find_nifty_symbol_from_gap option_type ltp gap) =
         ''NIFTY'' @ option_type @ py_str (strike (find_nifty_symbol_from_gap option_type ltp gap))
     \<and> (\<forall>ltp' gap'. strike (find_nifty_symbol_from_gap option_type ltp' gap') =
                       strike (find_nifty_symbol_from_gap option_type ltp gap) \<longrightarrow>
            find_nifty_symbol_from_gap option_type ltp' gap' =
            find_nifty_symbol_from_gap option_type ltp gap)
     \<and> strike (find_nifty_symbol_from_gap ''CE'' 24500 200) = 24700
     \<and> strike (find_nifty_symbol_from_gap ''PE'' 24500 200) = 24300"
  by (auto simp: find_nifty_symbol_from_gap_def Let_def)

text \<open>
  The theorem at \<open>('CE', 24500, 200)\<close> and \<open>('PE', 24500, 200)\<close>, with the instruments
  written out; \<open>('CE', 24600, 100)\<close> has the same strike and so the same instrument.
\<close>

theorem find_nifty_symbol_from_gap_strike_witness:
  "find_nifty_symbol_from_gap ''CE'' 24500 200 = \<lparr>tradingsymbol = ''NIFTYCE24700'', strike = 24700\<rparr>
   \<and> find_nifty_symbol_from_gap ''PE'' 24500 200 = \<lparr>tradingsymbol = ''NIFTYPE24300'', strike = 24300\<rparr>
   \<and> find_nifty_symbol_from_gap ''CE'' 24600 100 = find_nifty_symbol_from_gap ''CE'' 24500 200"
proof -
  have ce: "py_str 24700 = ''24700''" and pe: "py_str 24300 = ''24300''"
    by (simp_all add: py_str_def digits.simps)
  from find_nifty_symbol_from_gap_strike [of "''CE''" 24500 200]
  have c: "strike (find_nifty_symbol_from_gap ''CE'' 24500 200) = 24700"
    "tradingsymbol (find_nifty_symbol_from_gap ''CE'' 24500 200) = ''NIFTYCE24700''"
    "find_nifty_symbol_from_gap ''CE'' 24600 100 = find_nifty_symbol_from_gap ''CE'' 24500 200"
    using ce by (simp_all add: find_nifty_symbol_from_gap_def)
  from find_nifty_symbol_from_gap_strike [of "''PE''" 24500 200]
  have p: "strike (find_nifty_symbol_from_gap ''PE'' 24500 200) = 24300"
    "tradingsymbol (find_nifty_symbol_from_gap ''PE'' 24500 200) = ''NIFTYPE24300''"
    using pe by simp_all
  show ?thesis using c p by (auto intro: instrument.equality)
qed

section \<open>The run\<close>

text \<open>
  The strategy that \<open>run\<close> builds has the default configuration as its attributes, so
  its orders are SELL orders of type MARKET at the price 20 and placing them cannot
  fail.
\<close>

lemma default_strategy:
  "SurvivorBacktestStrategy_init get_default_config =
     Inr \<lparr>strat_var = get_default_config, symbol_initials = PyStr ''NIFTY25JAN30'',
          instruments = None, strike_difference = 50, pe_reset_gap_flag = 0,
          ce_reset_gap_flag = 0, nifty_pe_last_value = 24500, nifty_ce_last_value = 24500\<rparr>"
  by (simp add: SurvivorBacktestStrategy_init_def set_strat_vars_def get_default_config_def
        initialize_state_def Let_def)

lemma default_types:
  "map_of get_default_config ''trans_type'' = Some (PyStr ''SELL'')"
  "map_of get_default_config ''order_type'' = Some (PyStr ''MARKET'')"
  by (simp_all add: get_default_config_def)

lemma strategy_place_order_default:
  "strat_var s = get_default_config \<Longrightarrow>
     strategy_place_order s b symbol qty =
       Inr (snd (place_order b symbol qty 20 (PyStr ''SELL'') (PyStr ''MARKET'')))"
  by (simp add: strategy_place_order_def default_types)

lemma place_order_frame:
  "history (snd (place_order b symbol qty price tt ot)) = history b"
  "data (snd (place_order b symbol qty price tt ot)) = data b"
  "initial_capital (snd (place_order b symbol qty price tt ot)) = initial_capital b"
  by (simp_all add: place_order_def)

lemma place_orders_default:
  "strat_var s = get_default_config \<Longrightarrow>
     \<exists>b'. place_orders s b orders = Inr b' \<and> history b' = history b"
proof (induction orders arbitrary: b)
  case Nil
  then show ?case by simp
next
  case (Cons order orders)
  obtain symbol qty where o: "order = (symbol, qty)" by (cases order)
  show ?case
    using Cons.IH [OF Cons.prems,
        of "snd (place_order b symbol qty 20 (PyStr ''SELL'') (PyStr ''MARKET''))"]
    by (simp add: o strategy_place_order_default [OF Cons.prems] place_order_frame)
qed

lemma run_loop_marked:
  "run_loop react s b rows = Inr b' \<Longrightarrow> rows \<noteq> [] \<Longrightarrow>
     portfolio_value b' = mark_positions (cash b') (positions b') (snd (last rows))"
proof (induction rows arbitrary: s b)
  case Nil
  then show ?case by simp
next
  case (Cons row rows)
  obtain index price where row: "row = (index, price)" by (cases row)
  obtain orders strat' where r: "react s price = (orders, strat')"
    by (cases "react s price")
  from Cons.prems(1) row r obtain self1 where p: "place_orders s b orders = Inr self1"
    by (auto split: sum.splits)
  define self3 where "self3 = (update_portfolio_value self1 price)\<lparr>history :=
      history (update_portfolio_value self1 price) @
        [\<lparr>timestamp = index,
          entry_portfolio_value = portfolio_value (update_portfolio_value self1 price)\<rparr>]\<rparr>"
  have step: "run_loop react strat' self3 rows = Inr b'"
    using Cons.prems(1) by (simp add: row r p Let_def self3_def)
  show ?case
  proof (cases "rows = []")
    case True
    with step have "b' = self3" by simp
    then show ?thesis
      by (simp add: True row self3_def update_portfolio_value_def)
  next
    case False
    with Cons.IH [OF step] show ?thesis by simp
  qed
qed

lemma run_loop_history:
  assumes keep: "\<And>s p. strat_var (snd (react s p)) = strat_var s"
  shows "strat_var s = get_default_config \<Longrightarrow>
    \<exists>b' es. run_loop react s b rows = Inr b' \<and> history b' = history b @ es
       \<and> map timestamp es = map fst rows
       \<and> (\<forall>k<length rows. \<exists>bk. run_loop react s b (take (Suc k) rows) = Inr bk
             \<and> es ! k = \<lparr>timestamp = fst (rows ! k), entry_portfolio_value = portfolio_value bk\<rparr>)"
proof (induction rows arbitrary: s b)
  case Nil
  then show ?case by simp
next
  case (Cons row rows)
  obtain index price where row: "row = (index, price)" by (cases row)
  obtain orders strat' where r: "react s price = (orders, strat')"
    by (cases "react s price")
  have sv: "strat_var strat' = get_default_config"
    using keep [of s price] Cons.prems by (simp add: r)
  obtain self1 where p: "place_orders s b orders = Inr self1" and h1: "history self1 = history b"
    using place_orders_default [OF Cons.prems] by blast
  define e where "e = \<lparr>timestamp = index,
          entry_portfolio_value = portfolio_value (update_portfolio_value self1 price)\<rparr>"
  define self3 where "self3 = (update_portfolio_value self1 price)\<lparr>history :=
      history (update_portfolio_value self1 price) @ [e]\<rparr>"
  have step: "\<And>rest. run_loop react s b (row # rest) = run_loop react strat' self3 rest"
    by (simp add: row r p Let_def self3_def e_def)
  have h3: "history self3 = history b @ [e]"
    by (simp add: self3_def update_portfolio_value_def h1)
  have pv3: "portfolio_value self3 = entry_portfolio_value e"
    by (simp add: self3_def e_def)
  from Cons.IH [OF sv, of self3] obtain b' es where
    run: "run_loop react strat' self3 rows = Inr b'" and
    hist: "history b' = history self3 @ es" and
    ts: "map timestamp es = map fst rows" and
    each: "\<forall>k<length rows. \<exists>bk. run_loop react strat' self3 (take (Suc k) rows) = Inr bk
             \<and> es ! k = \<lparr>timestamp = fst (rows ! k), entry_portfolio_value = portfolio_value bk\<rparr>"
    by blast
  have "\<forall>k<length (row # rows). \<exists>bk. run_loop react s b (take (Suc k) (row # rows)) = Inr bk
          \<and> (e # es) ! k =
              \<lparr>timestamp = fst ((row # rows) ! k), entry_portfolio_value = portfolio_value bk\<rparr>"
  proof (intro allI impI)
    fix k assume k: "k < length (row # rows)"
    show "\<exists>bk. run_loop react s b (take (Suc k) (row # rows)) = Inr bk
          \<and> (e # es) ! k =
              \<lparr>timestamp = fst ((row # rows) ! k), entry_portfolio_value = portfolio_value bk\<rparr>"
    proof (cases k)
      case 0
      have "run_loop react s b (take (Suc 0) (row # rows)) = Inr self3"
        by (simp add: step)
      moreover have "e = \<lparr>timestamp = fst row, entry_portfolio_value = portfolio_value self3\<rparr>"
        by (simp add: pv3 row e_def)
      ultimately show ?thesis by (simp add: 0)
    next
      case (Suc j)
      with k have "j < length rows" by simp
      with each obtain bk where "run_loop react strat' self3 (take (Suc j) rows) = Inr bk"
        "es ! j = \<lparr>timestamp = fst (rows ! j), entry_portfolio_value = portfolio_value bk\<rparr>"
        by blast
      then show ?thesis by (simp add: Suc step)
    qed
  qed
  moreover have "run_loop react s b (row # rows) = Inr b'" by (simp add: step run)
  moreover have "history b' = history b @ (e # es)" by (simp add: hist h3)
  moreover have "map timestamp (e # es) = map fst (row # rows)" by (simp add: ts row e_def)
  ultimately show ?case by blast
qed


lemma place_order_data:
  "snd (place_order (b\<lparr>data := d\<rparr>) symbol qty price tt ot) =
     (snd (place_order b symbol qty price tt ot))\<lparr>data := d\<rparr>"
  by (auto simp: place_order_def split: option.splits)

lemma strategy_place_order_data:
  "strategy_place_order s (b\<lparr>data := d\<rparr>) symbol qty =
     map_sum id (\<lambda>b'. b'\<lparr>data := d\<rparr>) (strategy_place_order s b symbol qty)"
  by (simp add: strategy_place_order_def place_order_data split: option.splits)

lemma place_orders_data:
  "place_orders s (b\<lparr>data := d\<rparr>) orders =
     map_sum id (\<lambda>b'. b'\<lparr>data := d\<rparr>) (place_orders s b orders)"
proof (induction orders arbitrary: b)
  case Nil
  then show ?case by simp
next
  case (Cons order orders)
  obtain symbol qty where o: "order = (symbol, qty)" by (cases order)
  show ?case
    by (cases "strategy_place_order s b symbol qty")
       (simp_all add: o strategy_place_order_data Cons.IH)
qed

lemma run_loop_data:
  "run_loop react s (b\<lparr>data := d\<rparr>) rows =
     map_sum id (\<lambda>b'. b'\<lparr>data := d\<rparr>) (run_loop react s b rows)"
proof (induction rows arbitrary: s b)
  case Nil
  then show ?case by simp
next
  case (Cons row rows)
  obtain index price where row: "row = (index, price)" by (cases row)
  obtain orders strat' where r: "react s price = (orders, strat')"
    by (cases "react s price")
  show ?case
  proof (cases "place_orders s b orders")
    case (Inl e)
    then show ?thesis by (simp add: row r place_orders_data)
  next
    case (Inr self1)
    have "(update_portfolio_value (self1\<lparr>data := d\<rparr>) price)\<lparr>history :=
            history (update_portfolio_value (self1\<lparr>data := d\<rparr>) price) @
            [\<lparr>timestamp = index, entry_portfolio_value =
                portfolio_value (update_portfolio_value (self1\<lparr>data := d\<rparr>) price)\<rparr>]\<rparr> =
          ((update_portfolio_value self1 price)\<lparr>history :=
            history (update_portfolio_value self1 price) @
            [\<lparr>timestamp = index, entry_portfolio_value =
                portfolio_value (update_portfolio_value self1 price)\<rparr>]\<rparr>)\<lparr>data := d\<rparr>"
      by (simp add: update_portfolio_value_def)
    then show ?thesis
      by (simp add: row r place_orders_data Inr Let_def Cons.IH)
  qed
qed

text \<open>
  C5. For a strategy reaction that leaves the configured attributes as \<open>__init__\<close> set
  them, \<open>run\<close> returns, and the history it leaves is the history before followed by one
  entry per row of the data, in the order of the rows: entry \<open>k\<close> carries the timestamp
  of row \<open>k\<close> and the portfolio value of the backtester as the run over the rows up to
  and including \<open>k\<close> leaves it, which is its cash plus its positions marked at the price
  of row \<open>k\<close>.
\<close>

theorem run_history:
  assumes keep: "\<And>s p. strat_var (snd (react s p)) = strat_var s"
  shows "\<exists>b' es. run react self = Inr b' \<and> history b' = history self @ es
      \<and> length es = length (data self)
      \<and> map timestamp es = map fst (data self)
      \<and> (\<forall>k<length (data self).
            \<exists>bk. run react (self\<lparr>data := take (Suc k) (data self)\<rparr>) = Inr bk
              \<and> es ! k = \<lparr>timestamp = fst (data self ! k),
                           entry_portfolio_value = portfolio_value bk\<rparr>
              \<and> portfolio_value bk =
                  cash bk + (\<Sum>(symbol, pos)\<leftarrow>positions bk. quantity pos * snd (data self ! k)))"
proof -
  obtain s0 where s0: "SurvivorBacktestStrategy_init get_default_config = Inr s0"
    and sv: "strat_var s0 = get_default_config"
    by (simp add: default_strategy)
  from run_loop_history [of react s0 self "data self", OF keep sv] obtain b' es where
    run: "run_loop react s0 self (data self) = Inr b'" and
    hist: "history b' = history self @ es" and
    ts: "map timestamp es = map fst (data self)" and
    each: "\<forall>k<length (data self). \<exists>bk. run_loop react s0 self (take (Suc k) (data self)) = Inr bk
             \<and> es ! k = \<lparr>timestamp = fst (data self ! k), entry_portfolio_value = portfolio_value bk\<rparr>"
    by blast
  have len: "length es = length (data self)"
    using ts by (metis length_map)
  have "\<forall>k<length (data self).
            \<exists>bk. run react (self\<lparr>data := take (Suc k) (data self)\<rparr>) = Inr bk
              \<and> es ! k = \<lparr>timestamp = fst (data self ! k),
                           entry_portfolio_value = portfolio_value bk\<rparr>
              \<and> portfolio_value bk =
                  cash bk + (\<Sum>(symbol, pos)\<leftarrow>positions bk. quantity pos * snd (data self ! k))"
  proof (intro allI impI)
    fix k assume k: "k < length (data self)"
    from each k obtain bk where
      rk: "run_loop react s0 self (take (Suc k) (data self)) = Inr bk" and
      ek: "es ! k = \<lparr>timestamp = fst (data self ! k), entry_portfolio_value = portfolio_value bk\<rparr>"
      by blast
    have ne: "take (Suc k) (data self) \<noteq> []" using k by auto
    have "last (take (Suc k) (data self)) = data self ! k"
      using k by (simp add: take_Suc_conv_app_nth)
    with run_loop_marked [OF rk ne]
    have pv: "portfolio_value bk =
        cash bk + (\<Sum>(symbol, pos)\<leftarrow>positions bk. quantity pos * snd (data self ! k))"
      by (simp add: mark_positions_sum)
    have "run react (self\<lparr>data := take (Suc k) (data self)\<rparr>) =
            Inr (bk\<lparr>data := take (Suc k) (data self)\<rparr>)"
      by (simp add: run_def s0 run_loop_data rk)
    with ek pv show "\<exists>bk. run react (self\<lparr>data := take (Suc k) (data self)\<rparr>) = Inr bk
              \<and> es ! k = \<lparr>timestamp = fst (data self ! k),
                           entry_portfolio_value = portfolio_value bk\<rparr>
              \<and> portfolio_value bk =
                  cash bk + (\<Sum>(symbol, pos)\<leftarrow>positions bk. quantity pos * snd (data self ! k))"
      by simp
  qed
  moreover have "run react self = Inr b'" by (simp add: run_def s0 run)
  ultimately show ?thesis using hist len ts by blast
qed

lemma run_two_ticks:
  "run (\<lambda>s p. ([(''NIFTYCE24700'', 50)], s))
       (Backtester_init [(1::nat, 24500), (2, 24510)] 100000) =
     Inr \<lparr>data = [(1, 24500), (2, 24510)], initial_capital = 100000, cash = 102000,
          positions = [(''NIFTYCE24700'', \<lparr>quantity = - 100\<rparr>)],
          portfolio_value = - 2349000,
          history = [\<lparr>timestamp = 1, entry_portfolio_value = - 1124000\<rparr>,
                     \<lparr>timestamp = 2, entry_portfolio_value = - 2349000\<rparr>]\<rparr>"
  by (simp add: run_def default_strategy strategy_place_order_default place_order_def
        update_portfolio_value_def Backtester_init_def Let_def)

text \<open>
  The theorem at a feed of two ticks, on each of which the strategy sells 50 units of
  one symbol: two entries, with the timestamps of the feed in order.
\<close>

theorem run_history_witness:
  "\<exists>b'. run (\<lambda>s p. ([(''NIFTYCE24700'', 50)], s))
            (Backtester_init [(1::nat, 24500), (2, 24510)] 100000) = Inr b'
        \<and> length (history b') = 2
        \<and> map timestamp (history b') = [1, 2]
        \<and> map entry_portfolio_value (history b') = [- 1124000, - 2349000]"
  using run_history [of "\<lambda>s p. ([(''NIFTYCE24700'', 50)], s)"
      "Backtester_init [(1::nat, 24500), (2, 24510)] 100000"] run_two_ticks
  by (auto simp: Backtester_init_def)

section \<open>Empty feed and reporting\<close>


section \<open>The single-tick example\<close>

lemma run_single_sell:
  assumes "fst (react s0 24500) = [(symbol, 50)]"
    and "SurvivorBacktestStrategy_init get_default_config = Inr s0"
  shows "run react (Backtester_init [(ts, 24500)] 100000) =
     Inr \<lparr>data = [(ts, 24500)], initial_capital = 100000, cash = 101000,
          positions = [(symbol, \<lparr>quantity = - 50\<rparr>)], portfolio_value = - 1124000,
          history = [\<lparr>timestamp = ts, entry_portfolio_value = - 1124000\<rparr>]\<rparr>"
proof -
  obtain orders strat' where r: "react s0 24500 = (orders, strat')"
    by (cases "react s0 24500")
  with assms(1) have o: "orders = [(symbol, 50)]" by simp
  have sv: "strat_var s0 = get_default_config"
    using assms(2) by (auto simp: default_strategy)
  show ?thesis
    by (simp add: run_def assms(2) r o strategy_place_order_default [OF sv] place_order_def
          update_portfolio_value_def Backtester_init_def Let_def)
qed

text \<open>
  C2, as the code has it. From the initial capital 100000, after a single tick at
  price 24500 on which the strategy places one order of 50 units (a SELL at price 20,
  by the default configuration), the cash is 101000, the symbol's position is -50, and
  the portfolio value recorded for the tick is 101000 + (-50 * 24500) = -1124000: the
  position is marked at the tick's price, not at the fill price 20.
\<close>

theorem single_sell_tick:
  assumes "\<And>s. fst (react s 24500) = [(symbol, 50)]"
  shows "run react (Backtester_init [(ts, 24500)] 100000) =
     Inr \<lparr>data = [(ts, 24500)], initial_capital = 100000, cash = 101000,
          positions = [(symbol, \<lparr>quantity = - 50\<rparr>)], portfolio_value = - 1124000,
          history = [\<lparr>timestamp = ts, entry_portfolio_value = - 1124000\<rparr>]\<rparr>"
  by (rule run_single_sell [OF _ default_strategy]) (rule assms)

text \<open>The theorem for the symbol of the example, at timestamp 0.\<close>

theorem single_sell_tick_witness:
  "run (\<lambda>s p. ([(''NIFTY-CE-24525'', 50)], s)) (Backtester_init [(0::nat, 24500)] 100000) =
     Inr \<lparr>data = [(0, 24500)], initial_capital = 100000, cash = 101000,
          positions = [(''NIFTY-CE-24525'', \<lparr>quantity = - 50\<rparr>)], portfolio_value = - 1124000,
          history = [\<lparr>timestamp = 0, entry_portfolio_value = - 1124000\<rparr>]\<rparr>"
  using single_sell_tick [of "\<lambda>s p. ([(''NIFTY-CE-24525'', 50)], s)" "''NIFTY-CE-24525''" "0::nat"]
  by simp

text \<open>
  C2 as stated fails: in the example the run does not end in the state with portfolio
  value 100000; cash and position are as claimed, and the value recorded for the tick
  is -1124000.
\<close>

theorem single_sell_tick_counterexample:
  "run (\<lambda>s p. ([(''NIFTY-CE-24525'', 50)], s)) (Backtester_init [(0::nat, 24500)] 100000) \<noteq>
     Inr \<lparr>data = [(0, 24500)], initial_capital = 100000, cash = 101000,
          positions = [(''NIFTY-CE-24525'', \<lparr>quantity = - 50\<rparr>)], portfolio_value = 100000,
          history = [\<lparr>timestamp = 0, entry_portfolio_value = 100000\<rparr>]\<rparr>
   \<and> (case run (\<lambda>s p. ([(''NIFTY-CE-24525'', 50)], s))
              (Backtester_init [(0::nat, 24500)] 100000) of
        Inl e \<Rightarrow> False
      | Inr b' \<Rightarrow> cash b' = 101000
          \<and> map_of (positions b') ''NIFTY-CE-24525'' = Some \<lparr>quantity = - 50\<rparr>
          \<and> map entry_portfolio_value (history b') = [- 1124000]
          \<and> map entry_portfolio_value (history b') \<noteq> [100000])"
  using run_single_sell [of "\<lambda>s p. ([(''NIFTY-CE-24525'', 50)], s)" _ "''NIFTY-CE-24525''" "0::nat",
      OF _ default_strategy]
  by simp

end
